theory Spec2Isabelle
  imports Main
begin

section \<open>luxon: object cache facade (luxon/core/cache/cache.py)\<close>

text \<open>
  \<^verbatim>\<open>Cache\<close> holds a backend object and forwards to it. The backend classes are not part
  of the sources at hand, so the backend is modelled by the trace of the calls it
  receives: \<^verbatim>\<open>self._cached_backend.store(reference, obj, expire)\<close> appends one entry.
  Python integers are unbounded, hence \<open>int\<close>.
\<close>

record 'o backend_call =
  call_reference :: string
  call_obj :: 'o
  call_expire :: int

record 'o Cache =
  cached_backend :: "'o backend_call list"

definition store :: "'o Cache \<Rightarrow> string \<Rightarrow> 'o \<Rightarrow> int \<Rightarrow> 'o Cache" where
  "store self reference obj expire =
     (let expire = (if expire > 604800 then 604800 else expire)
      in self\<lparr>cached_backend := cached_backend self @
           [\<lparr>call_reference = reference, call_obj = obj, call_expire = expire\<rparr>]\<rparr>)"

section \<open>Python strings\<close>

text \<open>
  Python text is a sequence of code points. Text that the program receives is modelled by
  \<open>string\<close>, a \<open>char\<close> being a code point below 256; text that the program computes with
  \<^verbatim>\<open>str.upper()\<close> can leave that range and is a list of code points, \<open>points s\<close>
  being the code points of \<open>s\<close>. \<open>whitespace\<close> lists the code points below 256 for which
  \<^verbatim>\<open>str.isspace\<close> holds and \<open>strip\<close> is \<^verbatim>\<open>str.strip()\<close>;
  \<open>is_space_point\<close> and \<open>strip_points\<close> are the same on code points of any size.
  \<open>upper\<close> is \<^verbatim>\<open>str.upper()\<close>: besides a-z it maps the letters 0xE0-0xFE (0xF7 apart)
  32 down, 0xDF to SS, 0xB5 to U+039C and 0xFF to U+0178. \<open>lower\<close> is
  \<^verbatim>\<open>str.lower()\<close>, which stays below 256. \<open>show_nat\<close> is the \<^verbatim>\<open>%s\<close> rendering of
  a non-negative integer and \<open>join\<close> is \<^verbatim>\<open>sep.join(xs)\<close>.
  Every exception the modelled code can raise is a value of \<open>py_error\<close>; the message of a
  \<^verbatim>\<open>ValueError\<close> is kept, as code points.
\<close>

datatype py_error = ValueError "nat list" | IndexError | AttributeError | TypeError | OverflowError

definition points :: "string \<Rightarrow> nat list" where
  "points s = map of_char s"

definition whitespace :: "char list" where
  "whitespace = [CHR 0x09, CHR 0x0A, CHR 0x0B, CHR 0x0C, CHR 0x0D,
                 CHR 0x1C, CHR 0x1D, CHR 0x1E, CHR 0x1F, CHR '' '', CHR 0x85, CHR 0xA0]"

definition is_space :: "char \<Rightarrow> bool" where
  "is_space c = (c \<in> set whitespace)"

definition strip :: "string \<Rightarrow> string" where
  "strip s = rev (dropWhile is_space (rev (dropWhile is_space s)))"

definition is_space_point :: "nat \<Rightarrow> bool" where
  "is_space_point n =
     (n \<in> set [9, 10, 11, 12, 13, 28, 29, 30, 31, 32, 133, 160, 5760,
               8192, 8193, 8194, 8195, 8196, 8197, 8198, 8199, 8200, 8201, 8202,
               8232, 8233, 8239, 8287, 12288])"

definition strip_points :: "nat list \<Rightarrow> nat list" where
  "strip_points s = rev (dropWhile is_space_point (rev (dropWhile is_space_point s)))"

definition ascii_lowercase :: string where
  "ascii_lowercase = ''abcdefghijklmnopqrstuvwxyz''"

definition ascii_uppercase :: string where
  "ascii_uppercase = ''ABCDEFGHIJKLMNOPQRSTUVWXYZ''"

definition digits :: string where
  "digits = ''0123456789''"

definition upper_char :: "char \<Rightarrow> nat list" where
  "upper_char c =
     (let n = of_char c
      in if 97 \<le> n \<and> n \<le> 122 then [n - 32]
         else if n = 181 then [924]
         else if n = 223 then [83, 83]
         else if 224 \<le> n \<and> n \<le> 254 \<and> n \<noteq> 247 then [n - 32]
         else if n = 255 then [376]
         else [n])"

definition upper :: "string \<Rightarrow> nat list" where
  "upper s = concat (map upper_char s)"

definition to_lower :: "char \<Rightarrow> char" where
  "to_lower c =
     (let n = of_char c :: nat
      in if (65 \<le> n \<and> n \<le> 90) \<or> (192 \<le> n \<and> n \<le> 222 \<and> n \<noteq> 215)
         then char_of (n + 32) else c)"

definition lower :: "string \<Rightarrow> string" where
  "lower s = map to_lower s"

fun show_nat :: "nat \<Rightarrow> string" where
  "show_nat n = (if n < 10 then [digits ! n] else show_nat (n div 10) @ [digits ! (n mod 10)])"

declare show_nat.simps [simp del]

fun join :: "string \<Rightarrow> string list \<Rightarrow> string" where
  "join sep [] = []"
| "join sep [x] = x"
| "join sep (x # y # ys) = x @ sep @ join sep (y # ys)"

section \<open>luxon.utils.split\<close>

text \<open>
  Modelled from the spec: \<^verbatim>\<open>list_of_lines\<close> of \<^verbatim>\<open>luxon.utils.split\<close>, which
  \<^verbatim>\<open>log_formatted\<close> imports and whose source is missing. The specification says:
  "Split the message on newlines". \<open>list_of_lines\<close> splits at every newline character.
\<close>

fun list_of_lines :: "string \<Rightarrow> string list" where
  "list_of_lines [] = [[]]"
| "list_of_lines (c # cs) =
     (if c = CHR 0x0A then [] # list_of_lines cs
      else (case list_of_lines cs of [] \<Rightarrow> [[c]] | l # ls \<Rightarrow> (c # l) # ls))"

text \<open>
  Modelled from the spec: \<^verbatim>\<open>split_by_n\<close> of \<^verbatim>\<open>luxon.utils.split\<close>, whose source is
  missing as well. The specification says: "split each resulting line into fixed-width
  chunks of at most 300 characters (longer single lines must never be truncated, only
  chunked)". \<open>split_by_n seq n\<close> cuts \<open>seq\<close> into consecutive pieces of \<open>n\<close> elements,
  the last one possibly shorter; an empty line has no piece.
\<close>

function split_by_n :: "'a list \<Rightarrow> nat \<Rightarrow> 'a list list" where
  "split_by_n seq n =
     (if seq = [] \<or> n = 0 then [] else take n seq # split_by_n (drop n seq) n)"
  by pat_completeness auto
termination
  by (relation "measure (\<lambda>(seq, n). length seq)") auto

declare split_by_n.simps [simp del]

section \<open>luxon.utils.unique and the message formatter (luxon/core/logger.py)\<close>

text \<open>
  \<^verbatim>\<open>string_id(length)\<close> joins \<open>length\<close> random choices from
  \<^verbatim>\<open>string.ascii_letters + string.digits\<close>. The random generator is an explicit
  parameter: \<open>draws i\<close> is the \<open>i\<close>-th draw, reduced modulo the alphabet size as
  \<^verbatim>\<open>random.choice\<close> picks an index of the sequence.

  \<^verbatim>\<open>log_formatted\<close> reads three things from its surroundings, collected in \<open>env\<close>:
  the request context \<^verbatim>\<open>g.current_request\<close> (\<open>NoContext\<close> when the access raises
  \<^verbatim>\<open>NoContextError\<close>; the request id is \<open>None\<close> when it raises
  \<^verbatim>\<open>NotImplementedError\<close>), the function \<^verbatim>\<open>format_seconds\<close> of
  \<^verbatim>\<open>luxon.utils.formatting\<close> (its source is missing, hence a parameter) and the
  random draws. The argument \<open>message\<close> is the text \<^verbatim>\<open>str(if_bytes_to_unicode(message))\<close>.
  The result is the list of the strings passed to \<^verbatim>\<open>logger_facility\<close>, in call order,
  or the exception raised. The parameter \<^verbatim>\<open>append\<close> is written \<open>append'\<close>.
\<close>

definition ascii_letters :: string where
  "ascii_letters = ascii_lowercase @ ascii_uppercase"

definition string_id :: "nat \<Rightarrow> (nat \<Rightarrow> nat) \<Rightarrow> string" where
  "string_id len draws =
     map (\<lambda>i. (ascii_letters @ digits) ! (draws i mod length (ascii_letters @ digits))) [0..<len]"

datatype request_context = NoContext | Context "(string \<times> string) list" "string option"

record env =
  current_request :: request_context
  format_seconds :: "int \<Rightarrow> string"
  random_draws :: "nat \<Rightarrow> nat"

definition request_text :: "request_context \<Rightarrow> string" where
  "request_text ctx =
     (case ctx of
        NoContext \<Rightarrow> []
      | Context items rid \<Rightarrow>
          (let log_items = items @ (case rid of None \<Rightarrow> [] | Some i \<Rightarrow> [(''REQUEST-ID'', i)])
           in join '' '' (map (\<lambda>(key, val). ''('' @ key @ '': '' @ val @ '')'') log_items)))"

definition log_formatted ::
  "env \<Rightarrow> string \<Rightarrow> string option \<Rightarrow> string option \<Rightarrow> int option \<Rightarrow> string option
     \<Rightarrow> py_error + string list" where
  "log_formatted e message prepend append' timer log_id =
     (let request = request_text (current_request e);
          message = strip message
      in if message \<noteq> [] then
           (let message = (case timer of None \<Rightarrow> message
                           | Some t \<Rightarrow> message @ '' (DURATION: '' @ format_seconds e t @ '')'');
                lines = list_of_lines message;
                message = concat (map (\<lambda>line. split_by_n line 300) lines)
            in if length message > 1 then
                 (let log_id = (case log_id of None \<Rightarrow> string_id 6 (random_draws e) | Some i \<Rightarrow> i);
                      line = length message - 1
                  in Inr ((case prepend of None \<Rightarrow> []
                           | Some p \<Rightarrow> [''('' @ log_id @ '') #0 '' @ p])
                        @ map (\<lambda>(line, p). ''('' @ log_id @ '') '' @ show_nat (line + 1) @ ''# '' @ p)
                            (enumerate 0 message)
                        @ (case append' of None \<Rightarrow> []
                           | Some a \<Rightarrow> [''('' @ log_id @ '') #'' @ show_nat (line + 2) @ '' '' @ a])))
               else
                 (case message of
                    [] \<Rightarrow> Inl IndexError
                  | m0 # _ \<Rightarrow>
                      (let msg = (case log_id of Some i \<Rightarrow> ''('' @ i @ '') '' | None \<Rightarrow> []);
                           msg = (case prepend of Some p \<Rightarrow> msg @ p @ '' '' @ m0
                                  | None \<Rightarrow> msg @ m0);
                           msg = (case append' of Some a \<Rightarrow> msg @ '' '' @ a | None \<Rightarrow> msg);
                           msg = msg @ '' '' @ request
                       in Inr [msg])))
         else Inr [])"

definition emitted :: "py_error + string list \<Rightarrow> string list" where
  "emitted r = (case r of Inl _ \<Rightarrow> [] | Inr ls \<Rightarrow> ls)"

definition raised :: "py_error + 'a \<Rightarrow> py_error option" where
  "raised r = (case r of Inl x \<Rightarrow> Some x | Inr _ \<Rightarrow> None)"

definition normalized :: "env \<Rightarrow> string \<Rightarrow> int option \<Rightarrow> string" where
  "normalized e message timer =
     (let m = strip message
      in if m = [] then []
         else (case timer of None \<Rightarrow> m
               | Some t \<Rightarrow> m @ '' (DURATION: '' @ format_seconds e t @ '')''))"

definition message_chunks :: "env \<Rightarrow> string \<Rightarrow> int option \<Rightarrow> string list" where
  "message_chunks e message timer =
     concat (map (\<lambda>line. split_by_n line 300) (list_of_lines (normalized e message timer)))"

definition correlation_id :: "env \<Rightarrow> string option \<Rightarrow> string" where
  "correlation_id e log_id = (case log_id of None \<Rightarrow> string_id 6 (random_draws e) | Some i \<Rightarrow> i)"

section \<open>Levels, loggers and handlers\<close>

text \<open>
  A \<^verbatim>\<open>logging.Logger\<close> is a record of its name, its own level, its handler list and the
  levels of its ancestors (parent first, root last), from which
  \<^verbatim>\<open>getEffectiveLevel\<close> takes the first level that is set. Handler objects carry an
  identity \<open>hid\<close>, since \<^verbatim>\<open>removeHandler\<close> and \<^verbatim>\<open>addHandler\<close> compare objects.
  \<open>py_int\<close> is \<^verbatim>\<open>int(s)\<close> for text: optional surrounding white space, an optional sign,
  decimal digits with single underscores between them; \<open>None\<close> stands for \<^verbatim>\<open>ValueError\<close>
  (the limit newer interpreters put on the number of digits is left out). The white space
  that \<^verbatim>\<open>int\<close> skips is not that of \<^verbatim>\<open>str.strip()\<close>: the code points 0x1C-0x1F are
  not skipped.
  A level value is what a caller can pass: \<^verbatim>\<open>None\<close>, an integer (a boolean is one), a
  float, text or a list. A finite float is given by its integral part, which is what
  \<^verbatim>\<open>int\<close> returns for it. \<open>int_of_level\<close> is \<^verbatim>\<open>int(level)\<close>: the integer, or the
  kind of exception raised. \<^verbatim>\<open>TypeError\<close>, \<^verbatim>\<open>OverflowError\<close> and
  \<^verbatim>\<open>AttributeError\<close> come from the interpreter; their messages depend on the type of
  the value only and are not kept.
  Operations that mutate a logger return the new logger, paired with the exception raised, if any.
\<close>

definition quote :: string where
  "quote = [CHR 0x27]"

definition digit_value :: "char \<Rightarrow> nat option" where
  "digit_value = map_of (zip digits [0, 1, 2, 3, 4, 5, 6, 7, 8, 9])"

fun parse_digits :: "nat \<Rightarrow> string \<Rightarrow> nat option" where
  "parse_digits acc [] = Some acc"
| "parse_digits acc (c # cs) =
     (case digit_value c of
        Some d \<Rightarrow> parse_digits (10 * acc + d) cs
      | None \<Rightarrow>
          if c = CHR ''_'' then
            (case cs of
               [] \<Rightarrow> None
             | c' # _ \<Rightarrow> if digit_value c' \<noteq> None then parse_digits acc cs else None)
          else None)"

definition int_whitespace :: "char list" where
  "int_whitespace = [CHR 0x09, CHR 0x0A, CHR 0x0B, CHR 0x0C, CHR 0x0D, CHR '' '',
                     CHR 0x85, CHR 0xA0]"

definition is_int_space :: "char \<Rightarrow> bool" where
  "is_int_space c = (c \<in> set int_whitespace)"

definition int_strip :: "string \<Rightarrow> string" where
  "int_strip s = rev (dropWhile is_int_space (rev (dropWhile is_int_space s)))"

definition py_int :: "string \<Rightarrow> int option" where
  "py_int s =
     (let t = int_strip s;
          (sign, body) = (case t of
                            [] \<Rightarrow> (1, [])
                          | c # r \<Rightarrow> if c = CHR ''-'' then (- 1, r)
                                     else if c = CHR ''+'' then (1, r) else (1, t))
      in case body of
           [] \<Rightarrow> None
         | c # _ \<Rightarrow> if digit_value c = None then None
                    else map_option (\<lambda>n. sign * int n) (parse_digits 0 body))"

definition CRITICAL :: int where "CRITICAL = 50"
definition ERROR :: int where "ERROR = 40"
definition WARNING :: int where "WARNING = 30"
definition INFO :: int where "INFO = 20"
definition DEBUG :: int where "DEBUG = 10"
definition NOTSET :: int where "NOTSET = 0"

definition level_names :: "(string \<times> int) list" where
  "level_names = [(''CRITICAL'', CRITICAL), (''ERROR'', ERROR), (''WARNING'', WARNING),
                  (''INFO'', INFO), (''DEBUG'', DEBUG)]"

datatype port = PortInt int | PortStr string
datatype address = UnixSocket string | HostPort string port
datatype sink = Stdout | SysLog address | LogFile string
datatype formatter = log_format | simple_format
datatype TachyonFilter = TachyonFilter "string option"

record handler =
  hid :: nat
  sink :: sink
  formatter :: "formatter option"
  filters :: "TachyonFilter list"

record Logger =
  name :: string
  level :: int
  handlers :: "handler list"
  ancestor_levels :: "int list"

datatype py_float = FloatFinite int | FloatNaN | FloatInfinity

datatype level_value =
  LevelNone | LevelInt int | LevelFloat py_float | LevelStr string | LevelList

datatype int_result = IntValue int | RaisesValueError | RaisesTypeError | RaisesOverflowError

definition setLevel :: "Logger \<Rightarrow> int \<Rightarrow> Logger" where
  "setLevel logger n = logger\<lparr>level := n\<rparr>"

fun first_set_level :: "int list \<Rightarrow> int" where
  "first_set_level [] = NOTSET"
| "first_set_level (l # ls) = (if l \<noteq> 0 then l else first_set_level ls)"

definition getEffectiveLevel :: "Logger \<Rightarrow> int" where
  "getEffectiveLevel logger = first_set_level (level logger # ancestor_levels logger)"

definition getattr_logging :: "nat list \<Rightarrow> int option" where
  "getattr_logging nm = map_of (map (\<lambda>(k, v). (points k, v)) level_names) nm"

definition int_of_level :: "level_value \<Rightarrow> int_result" where
  "int_of_level v =
     (case v of
        LevelNone \<Rightarrow> RaisesTypeError
      | LevelInt n \<Rightarrow> IntValue n
      | LevelFloat f \<Rightarrow>
          (case f of
             FloatFinite n \<Rightarrow> IntValue n
           | FloatNaN \<Rightarrow> RaisesValueError
           | FloatInfinity \<Rightarrow> RaisesOverflowError)
      | LevelStr s \<Rightarrow> (case py_int s of Some n \<Rightarrow> IntValue n | None \<Rightarrow> RaisesValueError)
      | LevelList \<Rightarrow> RaisesTypeError)"

definition set_level :: "Logger \<Rightarrow> level_value \<Rightarrow> py_error option \<times> Logger" where
  "set_level logger v =
     (case int_of_level v of
        IntValue n \<Rightarrow> (None, setLevel logger n)
      | RaisesTypeError \<Rightarrow> (Some TypeError, logger)
      | RaisesOverflowError \<Rightarrow> (Some OverflowError, logger)
      | RaisesValueError \<Rightarrow>
          (case v of
             LevelStr s \<Rightarrow>
               (let level = strip_points (upper s)
                in if level \<in> set (map points [''CRITICAL'', ''ERROR'', ''WARNING'', ''INFO'',
                                                 ''DEBUG'']) then
                     (case getattr_logging level of
                        Some n \<Rightarrow> (None, setLevel logger n)
                      | None \<Rightarrow> (Some AttributeError, logger))
                   else
                     (Some (ValueError (points ''Invalid logging level '' @ points quote @ level
                                          @ points quote @ points '' for logger'' @ points '' ''
                                          @ points quote @ points (name logger) @ points quote)),
                      logger))
           | _ \<Rightarrow> (Some AttributeError, logger)))"

section \<open>Sink configuration (luxon/core/logger.py, configure)\<close>

text \<open>
  The configuration is a map from section names to sections, a section a map from option
  names to text; \<open>getboolean\<close> follows \<^verbatim>\<open>configparser\<close>. \<^verbatim>\<open>is_socket\<close> and the next
  free handler identity are parameters. The loop
  \<^verbatim>\<open>for handler in logger.handlers: logger.removeHandler(handler)\<close> iterates over the
  list it mutates: the list iterator keeps an index \<open>i\<close>, yields element \<open>i\<close> while
  \<open>i\<close> is below the current length, and advances; \<open>remove_handlers_loop\<close> is that loop.
  \<^verbatim>\<open>handler.setFormatter\<close> after \<^verbatim>\<open>logger.addHandler(handler)\<close> changes the object the
  list holds, which \<open>update_handler\<close> expresses. Handler constructors are taken to succeed.
\<close>

type_synonym section_proxy = "string \<rightharpoonup> string"
type_synonym config = "string \<rightharpoonup> section_proxy"

definition getboolean :: "section_proxy \<Rightarrow> string \<Rightarrow> bool \<Rightarrow> py_error + bool" where
  "getboolean section option fallback =
     (case section option of
        None \<Rightarrow> Inr fallback
      | Some v \<Rightarrow>
          if lower v \<in> set [''1'', ''yes'', ''true'', ''on''] then Inr True
          else if lower v \<in> set [''0'', ''no'', ''false'', ''off''] then Inr False
          else Inl (ValueError (points (''Not a boolean: '' @ v))))"

definition addFilter :: "handler \<Rightarrow> TachyonFilter \<Rightarrow> handler" where
  "addFilter h f = (if f \<in> set (filters h) then h else h\<lparr>filters := filters h @ [f]\<rparr>)"

definition setFormatter :: "handler \<Rightarrow> formatter \<Rightarrow> handler" where
  "setFormatter h f = h\<lparr>formatter := Some f\<rparr>"

definition addHandler :: "Logger \<Rightarrow> handler \<Rightarrow> Logger" where
  "addHandler logger h =
     (if h \<in> set (handlers logger) then logger
      else logger\<lparr>handlers := handlers logger @ [h]\<rparr>)"

definition removeHandler :: "Logger \<Rightarrow> handler \<Rightarrow> Logger" where
  "removeHandler logger h =
     (if h \<in> set (handlers logger) then logger\<lparr>handlers := remove1 h (handlers logger)\<rparr>
      else logger)"

definition update_handler :: "Logger \<Rightarrow> nat \<Rightarrow> (handler \<Rightarrow> handler) \<Rightarrow> Logger" where
  "update_handler logger i f =
     logger\<lparr>handlers := map (\<lambda>h. if hid h = i then f h else h) (handlers logger)\<rparr>"

function remove_handlers_loop :: "nat \<Rightarrow> Logger \<Rightarrow> Logger" where
  "remove_handlers_loop i logger =
     (if i < length (handlers logger)
      then remove_handlers_loop (i + 1) (removeHandler logger (handlers logger ! i))
      else logger)"
  by pat_completeness auto
termination
  by (relation "measure (\<lambda>(i, logger). length (handlers logger) - i)")
     (auto simp: removeHandler_def length_remove1)

declare remove_handlers_loop.simps [simp del]

definition configure ::
  "(string \<Rightarrow> bool) \<Rightarrow> config \<Rightarrow> string \<Rightarrow> Logger \<Rightarrow> nat \<Rightarrow> py_error option \<times> Logger \<times> nat" where
  "configure is_socket config config_section logger nid =
     (let (logger, nid) =
        (if config_section = ''application'' \<and> config config_section = None then
           (let logger = remove_handlers_loop 0 logger;
                handler = \<lparr>hid = nid, sink = Stdout, formatter = None, filters = []\<rparr>;
                handler = addFilter handler (TachyonFilter None);
                logger = addHandler logger handler;
                logger = update_handler logger (hid handler) (\<lambda>h. setFormatter h simple_format)
            in (logger, nid + 1))
         else (logger, nid))
      in case config config_section of
           None \<Rightarrow> (None, logger, nid)
         | Some section \<Rightarrow>
             (let tachyonfilter =
                    (if config_section = ''application'' \<and> section ''name'' \<noteq> None
                     then TachyonFilter (section ''name'') else TachyonFilter None);
                  logger = logger\<lparr>handlers := []\<rparr>;
                  level = section ''log_level'';
                  (exn, logger) =
                    (case level of
                       Some l \<Rightarrow> set_level logger (LevelStr l)
                     | None \<Rightarrow> if config_section = ''application''
                               then set_level logger (LevelStr ''WARNING'')
                               else (None, logger))
              in case exn of
                   Some x \<Rightarrow> (Some x, logger, nid)
                 | None \<Rightarrow>
                    (case getboolean section ''log_stdout'' False of
                       Inl x \<Rightarrow> (Some x, logger, nid)
                     | Inr log_stdout \<Rightarrow>
                        (let (logger, nid) =
                               (if log_stdout then
                                  (let handler = \<lparr>hid = nid, sink = Stdout, formatter = None,
                                                   filters = []\<rparr>;
                                       handler = setFormatter handler log_format;
                                       handler = addFilter handler tachyonfilter
                                   in (addHandler logger handler, nid + 1))
                                else (logger, nid));
                             host = section ''log_server'';
                             (logger, nid) =
                               (case host of
                                  None \<Rightarrow> (logger, nid)
                                | Some host \<Rightarrow>
                                    (let port = (case section ''log_server_port'' of
                                                   None \<Rightarrow> PortInt 514 | Some p \<Rightarrow> PortStr p);
                                         address =
                                           (if host = ''127.0.0.1'' \<or> lower host = ''localhost'' then
                                              (if is_socket ''/dev/log'' then UnixSocket ''/dev/log''
                                               else if is_socket ''/var/run/syslog''
                                               then UnixSocket ''/var/run/syslog''
                                               else HostPort host port)
                                            else HostPort host port);
                                         handler = \<lparr>hid = nid, sink = SysLog address,
                                                     formatter = None, filters = []\<rparr>;
                                         handler = setFormatter handler log_format;
                                         handler = addFilter handler tachyonfilter
                                     in (addHandler logger handler, nid + 1)));
                             log_file = section ''log_file'';
                             (logger, nid) =
                               (case log_file of
                                  None \<Rightarrow> (logger, nid)
                                | Some path \<Rightarrow>
                                    (let handler = \<lparr>hid = nid, sink = LogFile path,
                                                     formatter = None, filters = []\<rparr>;
                                         handler = setFormatter handler log_format;
                                         handler = addFilter handler tachyonfilter
                                     in (addHandler logger handler, nid + 1)))
                         in (None, logger, nid)))))"

definition sink_binding :: "handler \<Rightarrow> sink \<times> formatter option \<times> TachyonFilter list" where
  "sink_binding h = (sink h, formatter h, filters h)"

definition bindings :: "Logger \<Rightarrow> (sink \<times> formatter option \<times> TachyonFilter list) list" where
  "bindings logger = map sink_binding (handlers logger)"

definition configured :: "py_error option \<times> Logger \<times> nat \<Rightarrow> Logger" where
  "configured r = fst (snd r)"

definition configure_twice ::
  "(string \<Rightarrow> bool) \<Rightarrow> config \<Rightarrow> string \<Rightarrow> Logger \<Rightarrow> nat \<Rightarrow> py_error option \<times> Logger \<times> nat" where
  "configure_twice is_socket config config_section logger nid =
     (case configure is_socket config config_section logger nid of
        (Some x, logger', nid') \<Rightarrow> (Some x, logger', nid')
      | (None, logger', nid') \<Rightarrow> configure is_socket config config_section logger' nid')"

text \<open>
  What a present section asks for, read off the section alone: the bindings (sink,
  formatter, filters) in attachment order, and the exception the section makes
  \<^verbatim>\<open>configure\<close> raise for a logger of a given name. They are used to state what the
  section-present path of \<^verbatim>\<open>configure\<close> computes.
\<close>

definition section_bindings ::
  "(string \<Rightarrow> bool) \<Rightarrow> string \<Rightarrow> section_proxy \<Rightarrow> (sink \<times> formatter option \<times> TachyonFilter list) list" where
  "section_bindings is_socket config_section section =
     (let f = (if config_section = ''application'' \<and> section ''name'' \<noteq> None
               then TachyonFilter (section ''name'') else TachyonFilter None)
      in (if getboolean section ''log_stdout'' False = Inr True
          then [(Stdout, Some log_format, [f])] else [])
       @ (case section ''log_server'' of
            None \<Rightarrow> []
          | Some host \<Rightarrow>
              (let port = (case section ''log_server_port'' of
                             None \<Rightarrow> PortInt 514 | Some p \<Rightarrow> PortStr p)
               in [(SysLog (if host = ''127.0.0.1'' \<or> lower host = ''localhost'' then
                              (if is_socket ''/dev/log'' then UnixSocket ''/dev/log''
                               else if is_socket ''/var/run/syslog''
                               then UnixSocket ''/var/run/syslog''
                               else HostPort host port)
                            else HostPort host port), Some log_format, [f])]))
       @ (case section ''log_file'' of
            None \<Rightarrow> []
          | Some path \<Rightarrow> [(LogFile path, Some log_format, [f])]))"

definition section_error :: "string \<Rightarrow> string \<Rightarrow> section_proxy \<Rightarrow> py_error option" where
  "section_error logger_name config_section section =
     (case fst (set_level \<lparr>name = logger_name, level = 0, handlers = [], ancestor_levels = []\<rparr>
                 (case section ''log_level'' of
                    Some l \<Rightarrow> LevelStr l
                  | None \<Rightarrow> if config_section = ''application'' then LevelStr ''WARNING''
                            else LevelInt 0)) of
        Some x \<Rightarrow> Some x
      | None \<Rightarrow> (case getboolean section ''log_stdout'' False of Inl x \<Rightarrow> Some x | Inr _ \<Rightarrow> None))"

section \<open>The logger facade (GetLogger)\<close>

text \<open>
  Each emit method tests the effective level and only then calls \<^verbatim>\<open>log_formatted\<close>.
  The result is \<open>None\<close> when \<^verbatim>\<open>log_formatted\<close> was not called, and otherwise its result.
\<close>

record GetLogger =
  logger :: Logger

definition GetLogger_level :: "GetLogger \<Rightarrow> int" where
  "GetLogger_level self = getEffectiveLevel (logger self)"

type_synonym emit_result = "(py_error + string list) option"

definition critical ::
  "GetLogger \<Rightarrow> env \<Rightarrow> string \<Rightarrow> string option \<Rightarrow> string option \<Rightarrow> int option
     \<Rightarrow> string option \<Rightarrow> emit_result" where
  "critical self e msg prepend append' timer log_id =
     (if GetLogger_level self \<le> CRITICAL
      then Some (log_formatted e msg prepend append' timer log_id) else None)"

definition error ::
  "GetLogger \<Rightarrow> env \<Rightarrow> string \<Rightarrow> string option \<Rightarrow> string option \<Rightarrow> int option
     \<Rightarrow> string option \<Rightarrow> emit_result" where
  "error self e msg prepend append' timer log_id =
     (if GetLogger_level self \<le> ERROR
      then Some (log_formatted e msg prepend append' timer log_id) else None)"

definition warning ::
  "GetLogger \<Rightarrow> env \<Rightarrow> string \<Rightarrow> string option \<Rightarrow> string option \<Rightarrow> int option
     \<Rightarrow> string option \<Rightarrow> emit_result" where
  "warning self e msg prepend append' timer log_id =
     (if GetLogger_level self \<le> WARNING
      then Some (log_formatted e msg prepend append' timer log_id) else None)"

definition info ::
  "GetLogger \<Rightarrow> env \<Rightarrow> string \<Rightarrow> string option \<Rightarrow> string option \<Rightarrow> int option
     \<Rightarrow> string option \<Rightarrow> emit_result" where
  "info self e msg prepend append' timer log_id =
     (if GetLogger_level self \<le> INFO
      then Some (log_formatted e msg prepend append' timer log_id) else None)"

definition debug ::
  "GetLogger \<Rightarrow> env \<Rightarrow> string \<Rightarrow> string option \<Rightarrow> string option \<Rightarrow> int option
     \<Rightarrow> string option \<Rightarrow> emit_result" where
  "debug self e msg prepend append' timer log_id =
     (if GetLogger_level self \<le> DEBUG
      then Some (log_formatted e msg prepend append' timer log_id) else None)"

datatype severity = Critical | Error | Warning | Info | Debug

fun rank :: "severity \<Rightarrow> int" where
  "rank Critical = CRITICAL"
| "rank Error = ERROR"
| "rank Warning = WARNING"
| "rank Info = INFO"
| "rank Debug = DEBUG"

fun emit ::
  "severity \<Rightarrow> GetLogger \<Rightarrow> env \<Rightarrow> string \<Rightarrow> string option \<Rightarrow> string option \<Rightarrow> int option
     \<Rightarrow> string option \<Rightarrow> emit_result" where
  "emit Critical = critical"
| "emit Error = error"
| "emit Warning = warning"
| "emit Info = info"
| "emit Debug = debug"

definition formatter_calls :: "emit_result \<Rightarrow> nat" where
  "formatter_calls r = (case r of None \<Rightarrow> 0 | Some _ \<Rightarrow> 1)"

definition facility_calls :: "emit_result \<Rightarrow> string list" where
  "facility_calls r = (case r of None \<Rightarrow> [] | Some x \<Rightarrow> emitted x)"

section \<open>The receive loop of MPLogger\<close>

text \<open>
  The receiver consumes what \<^verbatim>\<open>queue.get()\<close> delivers, one \<open>event\<close> per call:
  the sentinel \<^verbatim>\<open>None\<close>, a record (logger name and message), a record whose handling
  raises an exception, an exception raised by the transport, or
  \<^verbatim>\<open>KeyboardInterrupt\<close>/\<^verbatim>\<open>SystemExit\<close>. When the events are used up the next
  \<^verbatim>\<open>get\<close> blocks for ever, which is the outcome \<open>Blocked\<close>. The two nested
  \<^verbatim>\<open>while self._running\<close> loops are the two program points of \<open>pc\<close>; the state
  counts the calls of \<^verbatim>\<open>get\<close>, the records dispatched and the reports printed to
  \<^verbatim>\<open>sys.stderr\<close>. \<open>receiver switch_fails\<close> is the whole function, \<open>switch_fails\<close>
  saying whether the privilege switch raised.
\<close>

datatype event = Sentinel | Record string string | Malformed | TransportError | Interrupt

record receiver_state =
  running :: bool
  receives :: nat
  dispatched :: "(string \<times> string) list"
  stderr_reports :: nat

datatype pc = OuterWhile | InnerWhile
datatype outcome = Returned | Blocked

function receiver_loop :: "pc \<Rightarrow> event list \<Rightarrow> receiver_state \<Rightarrow> outcome \<times> receiver_state" where
  "receiver_loop OuterWhile evs st =
     (if running st then receiver_loop InnerWhile evs st else (Returned, st))"
| "receiver_loop InnerWhile [] st =
     (if running st then (Blocked, st) else receiver_loop OuterWhile [] st)"
| "receiver_loop InnerWhile (ev # evs) st =
     (if running st then
        (let st = st\<lparr>receives := receives st + 1\<rparr>
         in case ev of
              Sentinel \<Rightarrow> receiver_loop OuterWhile evs st
            | Record nm msg \<Rightarrow>
                receiver_loop InnerWhile evs (st\<lparr>dispatched := dispatched st @ [(nm, msg)]\<rparr>)
            | Malformed \<Rightarrow>
                receiver_loop OuterWhile evs
                  (if running st then st\<lparr>stderr_reports := stderr_reports st + 1\<rparr> else st)
            | TransportError \<Rightarrow>
                receiver_loop OuterWhile evs
                  (if running st then st\<lparr>stderr_reports := stderr_reports st + 1\<rparr> else st)
            | Interrupt \<Rightarrow> receiver_loop OuterWhile evs (st\<lparr>running := False\<rparr>))
      else receiver_loop OuterWhile (ev # evs) st)"
  by pat_completeness auto
termination
  by (relation "measure (\<lambda>(p, evs, st).
        3 * length evs + (case p of OuterWhile \<Rightarrow> 1 | InnerWhile \<Rightarrow> if running st then 0 else 2))")
     auto

definition receiver :: "bool \<Rightarrow> event list \<Rightarrow> outcome \<times> receiver_state" where
  "receiver switch_fails evs =
     (let st = \<lparr>running = True, receives = 0, dispatched = [], stderr_reports = 0\<rparr>;
          st = (if switch_fails
                then st\<lparr>stderr_reports := stderr_reports st + 1, running := False\<rparr> else st)
      in receiver_loop OuterWhile evs st)"

section \<open>Concrete inputs\<close>

definition env0 :: env where
  "env0 = \<lparr>current_request = NoContext, format_seconds = (\<lambda>t. show_nat (nat t)),
           random_draws = (\<lambda>i. 7 * i + 3)\<rparr>"

definition two_line_message :: string where
  "two_line_message = ''ab'' @ [CHR 0x0A] @ ''cd''"

definition app_logger :: Logger where
  "app_logger = \<lparr>name = ''app'', level = 30, handlers = [], ancestor_levels = []\<rparr>"

definition h_stdout :: handler where
  "h_stdout = \<lparr>hid = 0, sink = Stdout, formatter = Some log_format,
               filters = [TachyonFilter None]\<rparr>"

definition h_file :: handler where
  "h_file = \<lparr>hid = 1, sink = LogFile ''/tmp/x.log'', formatter = Some log_format,
             filters = [TachyonFilter None]\<rparr>"

definition h_simple :: "nat \<Rightarrow> handler" where
  "h_simple i = \<lparr>hid = i, sink = Stdout, formatter = Some simple_format,
                 filters = [TachyonFilter None]\<rparr>"

definition root2 :: Logger where
  "root2 = \<lparr>name = ''root'', level = 30, handlers = [h_stdout, h_file], ancestor_levels = []\<rparr>"

definition no_sockets :: "string \<Rightarrow> bool" where
  "no_sockets path = False"

section \<open>Properties of the message formatter, the levels, the facade, the configuration and the receiver\<close>

lemma split_by_n_Nil: "split_by_n [] n = []"
  by (simp add: split_by_n.simps)

lemma split_by_n_short: "seq \<noteq> [] \<Longrightarrow> length seq \<le> n \<Longrightarrow> split_by_n seq n = [seq]"
  by (subst split_by_n.simps) (cases n; auto simp: split_by_n_Nil)

lemma list_of_lines_no_newline: "CHR 0x0A \<notin> set s \<Longrightarrow> list_of_lines s = [s]"
  by (induction s) auto

lemma log_formatted_chunks:
  assumes "strip message \<noteq> []"
  shows "log_formatted e message prepend append' timer log_id =
     (let cs = message_chunks e message timer in
      if length cs > 1 then
        Inr ((case prepend of None \<Rightarrow> []
              | Some p \<Rightarrow> [''('' @ correlation_id e log_id @ '') #0 '' @ p])
           @ map (\<lambda>(line, p). ''('' @ correlation_id e log_id @ '') '' @ show_nat (line + 1) @ ''# '' @ p)
               (enumerate 0 cs)
           @ (case append' of None \<Rightarrow> []
              | Some a \<Rightarrow> [''('' @ correlation_id e log_id @ '') #'' @ show_nat (length cs - 1 + 2) @ '' '' @ a]))
      else (case cs of [] \<Rightarrow> Inl IndexError
            | m0 # _ \<Rightarrow> Inr [(case log_id of Some i \<Rightarrow> ''('' @ i @ '') '' | None \<Rightarrow> [])
                 @ (case prepend of Some p \<Rightarrow> p @ '' '' | None \<Rightarrow> [])
                 @ m0
                 @ (case append' of Some a \<Rightarrow> '' '' @ a | None \<Rightarrow> [])
                 @ '' '' @ request_text (current_request e)]))"
proof -
  define cs where "cs = message_chunks e message timer"
  have fold: "concat (map (\<lambda>line. split_by_n line 300)
                (list_of_lines (case timer of None \<Rightarrow> strip message
                   | Some t \<Rightarrow> strip message @ '' (DURATION: '' @ format_seconds e t @ '')''))) = cs"
    using assms by (simp add: cs_def message_chunks_def normalized_def Let_def)
  show ?thesis
    unfolding log_formatted_def Let_def fold correlation_id_def cs_def[symmetric]
    using assms
    by (cases cs; cases prepend; cases append'; cases log_id) simp_all
qed

lemma log_formatted_empty:
  "strip message = [] \<Longrightarrow> log_formatted e message prepend append' timer log_id = Inr []"
  by (simp add: log_formatted_def)

lemma split_by_n_unfold:
  "seq \<noteq> [] \<Longrightarrow> 0 < n \<Longrightarrow> split_by_n seq n = take n seq # split_by_n (drop n seq) n"
  by (subst split_by_n.simps) simp

lemma split_by_n_bounded:
  "0 < n \<Longrightarrow> c \<in> set (split_by_n seq n) \<Longrightarrow> c \<noteq> [] \<and> length c \<le> n"
proof (induction seq n rule: split_by_n.induct)
  case (1 seq n)
  show ?case
  proof (cases "seq = []")
    case True
    with "1.prems" show ?thesis by (simp add: split_by_n_Nil)
  next
    case False
    have "c \<in> set (take n seq # split_by_n (drop n seq) n)"
      using "1.prems" split_by_n_unfold [OF False] by simp
    then have "c = take n seq \<or> c \<in> set (split_by_n (drop n seq) n)"
      by simp
    then show ?thesis
    proof
      assume c: "c = take n seq"
      have "take n seq \<noteq> []" using False "1.prems"(1) by simp
      then show ?thesis unfolding c by simp
    next
      assume "c \<in> set (split_by_n (drop n seq) n)"
      moreover have "\<not> (seq = [] \<or> n = 0)" using False "1.prems"(1) by simp
      ultimately show ?thesis using "1.IH" "1.prems"(1) by blast
    qed
  qed
qed

lemma concat_split_by_n: "0 < n \<Longrightarrow> concat (split_by_n seq n) = seq"
proof (induction seq n rule: split_by_n.induct)
  case (1 seq n)
  show ?case
  proof (cases "seq = []")
    case True
    then show ?thesis by (simp add: split_by_n_Nil)
  next
    case False
    have nz: "\<not> (seq = [] \<or> n = 0)" using False "1.prems" by simp
    have "concat (split_by_n seq n) = take n seq @ concat (split_by_n (drop n seq) n)"
      using split_by_n_unfold [OF False "1.prems"] by simp
    also have "concat (split_by_n (drop n seq) n) = drop n seq"
      using "1.IH" [OF nz "1.prems"] .
    finally show ?thesis by simp
  qed
qed

lemma message_chunks_bounded:
  "c \<in> set (message_chunks e message timer) \<Longrightarrow> c \<noteq> [] \<and> length c \<le> 300"
  by (auto simp: message_chunks_def dest: split_by_n_bounded [rotated])

lemma length_string_id: "length (string_id n draws) = n"
  by (simp add: string_id_def)

lemma string_id_alphanumeric:
  "set (string_id n draws) \<subseteq> set (ascii_letters @ digits)"
proof -
  have "0 < length (ascii_letters @ digits)"
    by (simp add: ascii_letters_def ascii_lowercase_def digits_def)
  then have "(ascii_letters @ digits) ! (k mod length (ascii_letters @ digits))
      \<in> set (ascii_letters @ digits)" for k
    by (intro nth_mem) simp
  then show ?thesis
    unfolding string_id_def by auto
qed

lemma message_chunks_empty: "strip message = [] \<Longrightarrow> message_chunks e message timer = []"
  by (simp add: message_chunks_def normalized_def split_by_n_Nil)

lemma message_chunks_single:
  assumes "normalized e message timer = m" "m \<noteq> []" "CHR 0x0A \<notin> set m" "length m \<le> 300"
  shows "message_chunks e message timer = [m]"
  using assms by (simp add: message_chunks_def list_of_lines_no_newline split_by_n_short)


lemma emitted_Inr: "emitted (Inr ls) = ls"
  by (simp add: emitted_def)

lemma raised_Inr: "raised (Inr ls) = None"
  by (simp add: raised_def)

lemma take_tag:
  "take (length i + 3) (CHR ''('' # i @ CHR '')'' # CHR '' '' # rest) = CHR ''('' # i @ '') ''"
  by (simp add: numeral_3_eq_3)

lemma log_formatted_many:
  assumes "1 < length (message_chunks e message timer)"
  shows "log_formatted e message prepend append' timer log_id =
     Inr ((case prepend of None \<Rightarrow> []
           | Some p \<Rightarrow> [''('' @ correlation_id e log_id @ '') #0 '' @ p])
        @ map (\<lambda>(line, p). ''('' @ correlation_id e log_id @ '') '' @ show_nat (line + 1) @ ''# '' @ p)
            (enumerate 0 (message_chunks e message timer))
        @ (case append' of None \<Rightarrow> []
           | Some a \<Rightarrow> [''('' @ correlation_id e log_id @ '') #''
                @ show_nat (length (message_chunks e message timer) + 1) @ '' '' @ a]))"
proof -
  have ne: "strip message \<noteq> []"
    using assms message_chunks_empty [of message e timer] by auto
  have arith: "length (message_chunks e message timer) - 1 + 2 =
      length (message_chunks e message timer) + 1"
    using assms by simp
  show ?thesis
    unfolding log_formatted_chunks [OF ne] Let_def arith
    using assms by simp
qed

text \<open>
  Claim C2. When the normalized text of a message splits into \<open>N > 1\<close> chunks,
  \<^verbatim>\<open>log_formatted\<close> raises nothing and emits \<open>N\<close> chunk lines, preceded by a lead line
  exactly when \<open>prepend\<close> is supplied and followed by a trailing line exactly when
  \<open>append\<close> is supplied, hence \<open>N + 2\<close> lines when both are. The lead line is tagged
  \<open>#0\<close>, the trailing line \<open>#(N+1)\<close>, chunk \<open>k\<close> carries its 1-based number, and every
  line starts with the same correlation id in parentheses: the supplied one, or else the
  six characters generated once.
\<close>

theorem log_formatted_multi_chunk:
  assumes "message_chunks e message timer = cs" and "length cs = N" and "1 < N"
  shows "raised (log_formatted e message prepend append' timer log_id) = None
    \<and> length (emitted (log_formatted e message prepend append' timer log_id)) =
        N + (case prepend of None \<Rightarrow> 0 | Some _ \<Rightarrow> 1) + (case append' of None \<Rightarrow> 0 | Some _ \<Rightarrow> 1)
    \<and> (\<forall>p a. prepend = Some p \<and> append' = Some a \<longrightarrow>
          length (emitted (log_formatted e message prepend append' timer log_id)) = N + 2)
    \<and> (\<forall>p. prepend = Some p \<longrightarrow>
          hd (emitted (log_formatted e message prepend append' timer log_id)) =
            ''('' @ correlation_id e log_id @ '') #0 '' @ p)
    \<and> (\<forall>a. append' = Some a \<longrightarrow>
          last (emitted (log_formatted e message prepend append' timer log_id)) =
            ''('' @ correlation_id e log_id @ '') #'' @ show_nat (N + 1) @ '' '' @ a)
    \<and> (\<forall>k < N.
          emitted (log_formatted e message prepend append' timer log_id)
              ! (k + (case prepend of None \<Rightarrow> 0 | Some _ \<Rightarrow> 1)) =
            ''('' @ correlation_id e log_id @ '') '' @ show_nat (k + 1) @ ''# '' @ cs ! k)
    \<and> (\<forall>l \<in> set (emitted (log_formatted e message prepend append' timer log_id)).
          take (length (correlation_id e log_id) + 3) l = ''('' @ correlation_id e log_id @ '') '')"
proof -
  let ?i = "correlation_id e log_id"
  let ?r = "log_formatted e message prepend append' timer log_id"
  let ?mid = "map (\<lambda>(line, p). ''('' @ ?i @ '') '' @ show_nat (line + 1) @ ''# '' @ p) (enumerate 0 cs)"
  let ?lead = "(case prepend of None \<Rightarrow> [] | Some p \<Rightarrow> [''('' @ ?i @ '') #0 '' @ p])"
  let ?trail = "(case append' of None \<Rightarrow> [] | Some a \<Rightarrow> [''('' @ ?i @ '') #'' @ show_nat (N + 1) @ '' '' @ a])"
  have r: "?r = Inr (?lead @ ?mid @ ?trail)"
    using log_formatted_many [of e message timer prepend append' log_id] assms
    by (cases append') simp_all
  have em: "emitted ?r = ?lead @ ?mid @ ?trail" and ra: "raised ?r = None"
    by (simp_all add: r emitted_Inr raised_Inr)
  have len_mid: "length ?mid = N" using assms by simp
  have mid_ne: "?mid \<noteq> []" using len_mid assms(3) by (metis length_0_conv not_less_zero)
  have len: "length (emitted ?r) =
      N + (case prepend of None \<Rightarrow> 0 | Some _ \<Rightarrow> 1) + (case append' of None \<Rightarrow> 0 | Some _ \<Rightarrow> 1)"
    unfolding em using len_mid by (cases prepend; cases append') simp_all
  have both: "\<forall>p a. prepend = Some p \<and> append' = Some a \<longrightarrow> length (emitted ?r) = N + 2"
    using len by auto
  have lead: "\<forall>p. prepend = Some p \<longrightarrow> hd (emitted ?r) = ''('' @ ?i @ '') #0 '' @ p"
    unfolding em by simp
  have trail: "\<forall>a. append' = Some a \<longrightarrow>
      last (emitted ?r) = ''('' @ ?i @ '') #'' @ show_nat (N + 1) @ '' '' @ a"
    unfolding em by simp
  have nth_mid: "\<forall>k < N. ?mid ! k = ''('' @ ?i @ '') '' @ show_nat (k + 1) @ ''# '' @ cs ! k"
    using assms(2) by (simp add: nth_enumerate_eq)
  have chunks: "\<forall>k < N. emitted ?r ! (k + (case prepend of None \<Rightarrow> 0 | Some _ \<Rightarrow> 1)) =
      ''('' @ ?i @ '') '' @ show_nat (k + 1) @ ''# '' @ cs ! k"
  proof (intro allI impI)
    fix k assume k: "k < N"
    have "emitted ?r ! (k + (case prepend of None \<Rightarrow> 0 | Some _ \<Rightarrow> 1)) = (?mid @ ?trail) ! k"
      unfolding em by (cases prepend) simp_all
    also have "\<dots> = ?mid ! k" using k len_mid by (simp add: nth_append)
    finally show "emitted ?r ! (k + (case prepend of None \<Rightarrow> 0 | Some _ \<Rightarrow> 1)) =
      ''('' @ ?i @ '') '' @ show_nat (k + 1) @ ''# '' @ cs ! k"
      using nth_mid k by simp
  qed
  have same_id: "\<forall>l \<in> set (emitted ?r). take (length ?i + 3) l = ''('' @ ?i @ '') ''"
    unfolding em by (cases prepend; cases append') (auto simp: take_tag simp del: add_Suc_right)
  from ra len both lead trail chunks same_id show ?thesis by blast
qed

lemma strip_simple [simp]: "strip ''hello'' = ''hello''"
  by (simp add: strip_def is_space_def whitespace_def)

lemma request_env0: "request_text (current_request env0) = []"
  by (simp add: env0_def request_text_def)

lemma chunks_two_line: "message_chunks env0 two_line_message None = [''ab'', ''cd'']"
  by (simp add: message_chunks_def normalized_def two_line_message_def strip_def is_space_def
      whitespace_def split_by_n_short)

theorem log_formatted_multi_chunk_witness:
  "message_chunks env0 two_line_message None = [''ab'', ''cd'']
   \<and> length [''ab'', ''cd''] = (2::nat) \<and> (1::nat) < 2
   \<and> raised (log_formatted env0 two_line_message (Some ''P'') (Some ''A'') None (Some ''xyz'')) = None
   \<and> length (emitted (log_formatted env0 two_line_message (Some ''P'') (Some ''A'') None (Some ''xyz''))) = 4
   \<and> hd (emitted (log_formatted env0 two_line_message (Some ''P'') (Some ''A'') None (Some ''xyz''))) =
        ''(xyz) #0 P''
   \<and> last (emitted (log_formatted env0 two_line_message (Some ''P'') (Some ''A'') None (Some ''xyz''))) =
        ''(xyz) #3 A''"
proof -
  have len: "length [''ab'', ''cd''] = (2::nat)" and gt: "(1::nat) < 2" by simp_all
  have three: "show_nat 3 = ''3''" by (simp add: show_nat.simps digits_def)
  from log_formatted_multi_chunk [OF chunks_two_line len gt,
      of "Some ''P''" "Some ''A''" "Some ''xyz''"]
  show ?thesis
    by (simp add: chunks_two_line correlation_id_def three)
qed




text \<open>
  It also fails for a message of 299 characters with a timer: the duration suffix takes the
  text over the bound, and two lines are emitted.
\<close>

lemma log_formatted_duration_overflow:
  "length (emitted (log_formatted env0 (replicate 299 (CHR ''a'')) None None (Some 5) None)) = 2"
proof -
  let ?m = "replicate 299 (CHR ''a'')"
  have s: "strip ?m = ?m"
    by (simp add: strip_def is_space_def whitespace_def)
  have nl: "CHR 0x0A \<notin> set (?m @ '' (DURATION: 5)'')"
    by simp
  have n: "normalized env0 ?m (Some 5) = ?m @ '' (DURATION: 5)''"
    by (simp add: normalized_def s env0_def show_nat.simps digits_def)
  have "split_by_n (?m @ '' (DURATION: 5)'') 300 = [?m @ '' '', ''(DURATION: 5)'']"
    by (subst split_by_n.simps) (simp add: split_by_n_short)
  then have cs: "message_chunks env0 ?m (Some 5) = [?m @ '' '', ''(DURATION: 5)'']"
    unfolding message_chunks_def n list_of_lines_no_newline [OF nl] by simp
  have "1 < length (message_chunks env0 ?m (Some 5))"
    by (simp add: cs)
  from log_formatted_many [OF this, of None None None] show ?thesis
    by (simp add: cs emitted_Inr)
qed

text \<open>
  Claim C6. On the single-chunk path the line ends with a space followed by the request
  context, also when the request context is empty: for the message \<open>hello\<close> with no
  prepend, append, id and request context the line emitted is \<open>hello\<close> followed by a space.
\<close>

theorem log_formatted_trailing_space:
  "log_formatted env0 ''hello'' None None None None = Inr [''hello '']"
proof -
  have "message_chunks env0 ''hello'' None = [''hello'']"
    by (rule message_chunks_single [where m = "''hello''"]) (simp_all add: normalized_def)
  then show ?thesis
    using log_formatted_chunks [of "''hello''" env0 None None None None]
    by (simp add: request_env0)
qed

text \<open>
  Claim C8. When the message is empty after stripping, \<^verbatim>\<open>log_formatted\<close> emits no line
  and raises nothing, whatever the other arguments are, the timer included.
\<close>

theorem log_formatted_empty_noop:
  assumes "strip message = []"
  shows "log_formatted e message prepend append' timer log_id = Inr []
       \<and> raised (log_formatted e message prepend append' timer log_id) = None
       \<and> emitted (log_formatted e message prepend append' timer log_id) = []"
  using assms by (simp add: log_formatted_def raised_def emitted_def)

theorem log_formatted_empty_noop_witness:
  "strip [CHR '' '', CHR 0x0A, CHR 0x09] = []
   \<and> log_formatted env0 [CHR '' '', CHR 0x0A, CHR 0x09] (Some ''P'') (Some ''A'') (Some 5) None = Inr []
   \<and> log_formatted env0 [] None None None None = Inr []"
proof -
  have a: "strip [CHR '' '', CHR 0x0A, CHR 0x09] = []" and b: "strip [] = []"
    by (simp_all add: strip_def is_space_def whitespace_def)
  from log_formatted_empty_noop [OF a, of env0 "Some ''P''" "Some ''A''" "Some 5" None]
       log_formatted_empty_noop [OF b, of env0 None None None None] a
  show ?thesis by simp
qed

lemma receiver_loop_never_returns:
  "running st \<Longrightarrow> Interrupt \<notin> set evs \<Longrightarrow>
     fst (receiver_loop p evs st) = Blocked
     \<and> receives (snd (receiver_loop p evs st)) = receives st + length evs
     \<and> running (snd (receiver_loop p evs st))"
proof (induction evs arbitrary: st p)
  case Nil
  then show ?case by (cases p) simp_all
next
  case (Cons ev evs)
  have inner: "fst (receiver_loop InnerWhile (ev # evs) st) = Blocked
     \<and> receives (snd (receiver_loop InnerWhile (ev # evs) st)) = receives st + length (ev # evs)
     \<and> running (snd (receiver_loop InnerWhile (ev # evs) st))"
    using Cons.prems Cons.IH by (cases ev) (simp_all add: Let_def)
  then show ?case using Cons.prems by (cases p) simp_all
qed

text \<open>
  Claim C1. The sentinel leaves the inner loop only; the outer loop finds
  \<^verbatim>\<open>self._running\<close> still true and calls \<^verbatim>\<open>get\<close> again. On the sentinel followed by
  one record the receiver calls \<^verbatim>\<open>get\<close> twice, dispatches the record and then waits in
  a third call; it does not return.
\<close>

theorem receiver_continues_after_sentinel:
  "receiver False [Sentinel, Record ''app'' ''hello''] =
     (Blocked, \<lparr>running = True, receives = 2, dispatched = [(''app'', ''hello'')],
                stderr_reports = 0\<rparr>)"
  by (simp add: receiver_def Let_def)

lemma strip_head:
  assumes "dropWhile P xs = y # ys"
  shows "\<exists>zs. rev (dropWhile P (rev (dropWhile P xs))) = y # zs"
proof -
  have ny: "\<not> P y"
    using assms by (metis dropWhile_eq_Cons_conv)
  have "dropWhile P (rev ys @ [y]) = dropWhile P (rev ys) @ [y]
      \<or> dropWhile P (rev ys @ [y]) = [y]"
    using ny by (simp add: dropWhile_append)
  then obtain as where "dropWhile P (rev (y # ys)) = as @ [y]"
    by auto
  then show ?thesis
    unfolding assms by simp
qed

lemma head_of_stripped:
  assumes "rev (dropWhile P (rev xs)) = c # r"
  shows "\<exists>r'. xs = c # r'"
proof -
  have "rev xs = takeWhile P (rev xs) @ dropWhile P (rev xs)"
    by simp
  then have "xs = rev (dropWhile P (rev xs)) @ rev (takeWhile P (rev xs))"
    by (metis rev_append rev_rev_ident)
  from this [unfolded assms] show ?thesis
    by (metis append_Cons)
qed

lemma py_int_head:
  assumes "py_int s = Some n"
  shows "\<exists>c r. int_strip s = c # r \<and> (c = CHR ''-'' \<or> c = CHR ''+'' \<or> digit_value c \<noteq> None)"
proof (cases "int_strip s")
  case Nil
  with assms show ?thesis by (simp add: py_int_def)
next
  case (Cons c r)
  show ?thesis
  proof (rule ccontr)
    assume "\<not> ?thesis"
    with Cons have c: "c \<noteq> CHR ''-''" "c \<noteq> CHR ''+''" "digit_value c = None" by auto
    with Cons assms show False by (simp add: py_int_def)
  qed
qed

lemma sign_or_digit_cases:
  assumes "c = CHR ''-'' \<or> c = CHR ''+'' \<or> digit_value c \<noteq> None"
  shows "c = CHR ''-'' \<or> c = CHR ''+'' \<or> c = CHR ''0'' \<or> c = CHR ''1'' \<or> c = CHR ''2''
      \<or> c = CHR ''3'' \<or> c = CHR ''4'' \<or> c = CHR ''5'' \<or> c = CHR ''6'' \<or> c = CHR ''7''
      \<or> c = CHR ''8'' \<or> c = CHR ''9''"
proof -
  have "digit_value c \<noteq> None \<Longrightarrow> c \<in> set digits"
    by (auto simp: digit_value_def digits_def split: if_splits)
  with assms have "c \<in> set ''-+0123456789''"
    by (auto simp: digits_def)
  then show ?thesis by simp
qed

lemma sign_or_digit_upper:
  assumes "c = CHR ''-'' \<or> c = CHR ''+'' \<or> digit_value c \<noteq> None"
  shows "upper_char c = [of_char c] \<and> \<not> is_space_point (of_char c)
       \<and> \<not> is_int_space c \<and> (of_char c :: nat) \<notin> {67, 69, 87, 73, 68}"
  using sign_or_digit_cases [OF assms]
  by (elim disjE)
     (simp_all add: upper_char_def is_space_point_def is_int_space_def int_whitespace_def)

lemma int_space_upper:
  assumes "is_int_space a"
  shows "upper_char a = [of_char a] \<and> is_space_point (of_char a)"
proof -
  from assms have "a = CHR 0x09 \<or> a = CHR 0x0A \<or> a = CHR 0x0B \<or> a = CHR 0x0C \<or> a = CHR 0x0D
      \<or> a = CHR '' '' \<or> a = CHR 0x85 \<or> a = CHR 0xA0"
    by (simp add: is_int_space_def int_whitespace_def)
  then show ?thesis
    by (elim disjE) (simp_all add: upper_char_def is_space_point_def)
qed

lemma dropWhile_upper:
  assumes "dropWhile is_int_space s = c # r"
      and "c = CHR ''-'' \<or> c = CHR ''+'' \<or> digit_value c \<noteq> None"
  shows "dropWhile is_space_point (upper s) = of_char c # upper r"
  using assms(1)
proof (induction s)
  case Nil
  then show ?case by simp
next
  case (Cons a t)
  show ?case
  proof (cases "is_int_space a")
    case True
    with Cons.prems have "dropWhile is_int_space t = c # r" by simp
    with Cons.IH have "dropWhile is_space_point (upper t) = of_char c # upper r" by simp
    then show ?thesis
      using int_space_upper [OF True] by (simp add: upper_def)
  next
    case False
    with Cons.prems have "a = c" "t = r" by simp_all
    then show ?thesis
      using sign_or_digit_upper [OF assms(2)] by (simp add: upper_def)
  qed
qed

lemma numeric_is_no_name:
  assumes "py_int s = Some n"
  shows "strip_points (upper s) \<notin>
           set (map points [''CRITICAL'', ''ERROR'', ''WARNING'', ''INFO'', ''DEBUG''])"
proof -
  from py_int_head [OF assms] obtain c r where
    s: "int_strip s = c # r" and c: "c = CHR ''-'' \<or> c = CHR ''+'' \<or> digit_value c \<noteq> None"
    by blast
  from head_of_stripped [OF s [unfolded int_strip_def]] obtain r' where
    "dropWhile is_int_space s = c # r'" by blast
  from dropWhile_upper [OF this c] have
    "dropWhile is_space_point (upper s) = of_char c # upper r'" .
  from strip_head [OF this] obtain zs where
    "strip_points (upper s) = of_char c # zs"
    unfolding strip_points_def by blast
  moreover have "(of_char c :: nat) \<notin> {67, 69, 87, 73, 68}"
    using sign_or_digit_upper [OF c] by simp
  ultimately show ?thesis
    by (auto simp: points_def)
qed

lemma set_level_error_keeps_logger:
  "fst (set_level lg v) \<noteq> None \<Longrightarrow> snd (set_level lg v) = lg"
  by (auto simp: set_level_def Let_def split: int_result.splits level_value.splits option.splits)

text \<open>
  Claim C4, as amended. \<^verbatim>\<open>set_level\<close> accepts an integer, a finite float, text that
  \<^verbatim>\<open>int\<close> parses, and text that is one of CRITICAL, ERROR, WARNING, INFO, DEBUG after
  upper-casing and stripping, and sets the corresponding level. For every other text it
  raises \<^verbatim>\<open>ValueError\<close> with a message that ends with the logger's name in quotes.
  \<^verbatim>\<open>None\<close> and a list raise \<^verbatim>\<open>TypeError\<close>, a NaN raises \<^verbatim>\<open>AttributeError\<close> and an
  infinite float \<^verbatim>\<open>OverflowError\<close>, none of which names the logger. Whenever an
  exception is raised the logger, its level included, is unchanged.
\<close>

theorem set_level_accepts_or_rejects:
  "set_level lg (LevelInt n) = (None, lg\<lparr>level := n\<rparr>)
   \<and> set_level lg (LevelFloat (FloatFinite n)) = (None, lg\<lparr>level := n\<rparr>)
   \<and> (py_int s = Some n \<longrightarrow> set_level lg (LevelStr s) = (None, lg\<lparr>level := n\<rparr>))
   \<and> (strip_points (upper s) = points ''CRITICAL'' \<longrightarrow>
        set_level lg (LevelStr s) = (None, lg\<lparr>level := 50\<rparr>))
   \<and> (strip_points (upper s) = points ''ERROR'' \<longrightarrow>
        set_level lg (LevelStr s) = (None, lg\<lparr>level := 40\<rparr>))
   \<and> (strip_points (upper s) = points ''WARNING'' \<longrightarrow>
        set_level lg (LevelStr s) = (None, lg\<lparr>level := 30\<rparr>))
   \<and> (strip_points (upper s) = points ''INFO'' \<longrightarrow>
        set_level lg (LevelStr s) = (None, lg\<lparr>level := 20\<rparr>))
   \<and> (strip_points (upper s) = points ''DEBUG'' \<longrightarrow>
        set_level lg (LevelStr s) = (None, lg\<lparr>level := 10\<rparr>))
   \<and> (py_int s = None
        \<and> strip_points (upper s) \<notin>
            set (map points [''CRITICAL'', ''ERROR'', ''WARNING'', ''INFO'', ''DEBUG'']) \<longrightarrow>
        set_level lg (LevelStr s) =
          (Some (ValueError (points ''Invalid logging level '' @ points quote
                              @ strip_points (upper s) @ points quote
                              @ points '' for logger '' @ points quote @ points (name lg)
                              @ points quote)), lg))
   \<and> set_level lg LevelNone = (Some TypeError, lg)
   \<and> set_level lg LevelList = (Some TypeError, lg)
   \<and> set_level lg (LevelFloat FloatNaN) = (Some AttributeError, lg)
   \<and> set_level lg (LevelFloat FloatInfinity) = (Some OverflowError, lg)
   \<and> (fst (set_level lg v) \<noteq> None \<longrightarrow>
        snd (set_level lg v) = lg \<and> level (snd (set_level lg v)) = level lg)"
proof -
  have named: "set_level lg (LevelStr s) = (None, lg\<lparr>level := k\<rparr>)"
    if "strip_points (upper s) = points nm" and "(nm, k) \<in> set level_names" for nm k
  proof -
    have nm: "points nm \<in> set (map points [''CRITICAL'', ''ERROR'', ''WARNING'', ''INFO'', ''DEBUG''])"
      using that(2) by (auto simp: level_names_def)
    have "py_int s = None"
      using numeric_is_no_name [of s] that(1) nm by (cases "py_int s") auto
    moreover have "getattr_logging (points nm) = Some k"
      using that(2)
      by (auto simp: getattr_logging_def level_names_def points_def)
    ultimately show ?thesis
      using that(1) nm by (simp add: set_level_def int_of_level_def setLevel_def)
  qed
  have "set_level lg (LevelInt n) = (None, lg\<lparr>level := n\<rparr>)"
    by (simp add: set_level_def int_of_level_def setLevel_def)
  moreover have "set_level lg (LevelFloat (FloatFinite n)) = (None, lg\<lparr>level := n\<rparr>)"
    by (simp add: set_level_def int_of_level_def setLevel_def)
  moreover have "py_int s = Some n \<longrightarrow> set_level lg (LevelStr s) = (None, lg\<lparr>level := n\<rparr>)"
    by (simp add: set_level_def int_of_level_def setLevel_def)
  moreover have "strip_points (upper s) = points ''CRITICAL'' \<longrightarrow>
      set_level lg (LevelStr s) = (None, lg\<lparr>level := 50\<rparr>)"
    using named [of "''CRITICAL''" 50] by (simp add: level_names_def CRITICAL_def)
  moreover have "strip_points (upper s) = points ''ERROR'' \<longrightarrow>
      set_level lg (LevelStr s) = (None, lg\<lparr>level := 40\<rparr>)"
    using named [of "''ERROR''" 40] by (simp add: level_names_def ERROR_def)
  moreover have "strip_points (upper s) = points ''WARNING'' \<longrightarrow>
      set_level lg (LevelStr s) = (None, lg\<lparr>level := 30\<rparr>)"
    using named [of "''WARNING''" 30] by (simp add: level_names_def WARNING_def)
  moreover have "strip_points (upper s) = points ''INFO'' \<longrightarrow>
      set_level lg (LevelStr s) = (None, lg\<lparr>level := 20\<rparr>)"
    using named [of "''INFO''" 20] by (simp add: level_names_def INFO_def)
  moreover have "strip_points (upper s) = points ''DEBUG'' \<longrightarrow>
      set_level lg (LevelStr s) = (None, lg\<lparr>level := 10\<rparr>)"
    using named [of "''DEBUG''" 10] by (simp add: level_names_def DEBUG_def)
  moreover have "py_int s = None
        \<and> strip_points (upper s) \<notin>
            set (map points [''CRITICAL'', ''ERROR'', ''WARNING'', ''INFO'', ''DEBUG'']) \<longrightarrow>
        set_level lg (LevelStr s) =
          (Some (ValueError (points ''Invalid logging level '' @ points quote
                              @ strip_points (upper s) @ points quote
                              @ points '' for logger '' @ points quote @ points (name lg)
                              @ points quote)), lg)"
    by (simp add: set_level_def int_of_level_def Let_def points_def)
  moreover have "set_level lg LevelNone = (Some TypeError, lg)"
    and "set_level lg LevelList = (Some TypeError, lg)"
    and "set_level lg (LevelFloat FloatNaN) = (Some AttributeError, lg)"
    and "set_level lg (LevelFloat FloatInfinity) = (Some OverflowError, lg)"
    by (simp_all add: set_level_def int_of_level_def)
  moreover have "fst (set_level lg v) \<noteq> None \<longrightarrow>
      snd (set_level lg v) = lg \<and> level (snd (set_level lg v)) = level lg"
    using set_level_error_keeps_logger [of lg v] by simp
  ultimately show ?thesis by blast
qed

lemma py_int_examples:
  "py_int '' 15 '' = Some 15" "py_int '' info '' = None" "py_int ''verbose'' = None"
  by (simp_all add: py_int_def int_strip_def is_int_space_def int_whitespace_def
      digit_value_def digits_def)

lemma upper_examples:
  "strip_points (upper '' info '') = points ''INFO''"
  "strip_points (upper ''verbose'') = points ''VERBOSE''"
  by (simp_all add: strip_points_def upper_def upper_char_def is_space_point_def points_def)

theorem set_level_accepts_or_rejects_witness:
  "py_int '' 15 '' = Some 15
   \<and> set_level app_logger (LevelStr '' 15 '') = (None, app_logger\<lparr>level := 15\<rparr>)
   \<and> strip_points (upper '' info '') = points ''INFO''
   \<and> set_level app_logger (LevelStr '' info '') = (None, app_logger\<lparr>level := 20\<rparr>)
   \<and> py_int ''verbose'' = None
   \<and> strip_points (upper ''verbose'') \<notin>
        set (map points [''CRITICAL'', ''ERROR'', ''WARNING'', ''INFO'', ''DEBUG''])
   \<and> set_level app_logger (LevelStr ''verbose'') =
        (Some (ValueError (points ''Invalid logging level '' @ points quote @ points ''VERBOSE''
                            @ points quote @ points '' for logger '' @ points quote
                            @ points ''app'' @ points quote)), app_logger)
   \<and> fst (set_level app_logger (LevelStr ''verbose'')) \<noteq> None
   \<and> level (snd (set_level app_logger (LevelStr ''verbose''))) = 30"
proof -
  have no_name: "points ''VERBOSE'' \<notin>
      set (map points [''CRITICAL'', ''ERROR'', ''WARNING'', ''INFO'', ''DEBUG''])"
    by (simp add: points_def)
  from set_level_accepts_or_rejects [of app_logger 15 "'' 15 ''" "LevelStr ''verbose''"]
       set_level_accepts_or_rejects [of app_logger 0 "'' info ''" "LevelStr ''verbose''"]
       set_level_accepts_or_rejects [of app_logger 0 "''verbose''" "LevelStr ''verbose''"]
       no_name
  show ?thesis
    by (simp add: py_int_examples upper_examples app_logger_def)
qed

text \<open>
  The claim as first stated fails for the value \<^verbatim>\<open>None\<close>: \<^verbatim>\<open>int(None)\<close> raises
  \<^verbatim>\<open>TypeError\<close>, which \<^verbatim>\<open>set_level\<close> does not catch; the exception is the same for
  loggers of different names, so it does not identify the logger.
\<close>

theorem set_level_none_counterexample:
  "fst (set_level app_logger LevelNone) = Some TypeError
   \<and> fst (set_level (app_logger\<lparr>name := ''other''\<rparr>) LevelNone) = Some TypeError"
  by (simp add: set_level_def int_of_level_def)

text \<open>
  Claim C7. For every severity, when the effective level of the logger is strictly greater
  than the rank of the severity, the emit method returns without calling
  \<^verbatim>\<open>log_formatted\<close> and passes no line to the logger.
\<close>

theorem emit_gated_by_effective_level:
  assumes "rank sev < getEffectiveLevel (logger self)"
  shows "emit sev self e msg prepend append' timer log_id = None
       \<and> formatter_calls (emit sev self e msg prepend append' timer log_id) = 0
       \<and> facility_calls (emit sev self e msg prepend append' timer log_id) = []"
  using assms
  by (cases sev)
     (simp_all add: critical_def error_def warning_def info_def debug_def GetLogger_level_def
        formatter_calls_def facility_calls_def)

theorem emit_gated_by_effective_level_witness:
  "rank Info < getEffectiveLevel (logger \<lparr>logger = app_logger\<lparr>level := 40\<rparr>\<rparr>)
   \<and> emit Info \<lparr>logger = app_logger\<lparr>level := 40\<rparr>\<rparr> env0 ''hello'' None None None None = None
   \<and> facility_calls (emit Info \<lparr>logger = app_logger\<lparr>level := 40\<rparr>\<rparr> env0 ''hello'' None None None None) = []"
proof -
  have h: "rank Info < getEffectiveLevel (logger \<lparr>logger = app_logger\<lparr>level := 40\<rparr>\<rparr>)"
    by (simp add: getEffectiveLevel_def app_logger_def INFO_def)
  from emit_gated_by_effective_level [OF h, of env0 "''hello''" None None None None] h
  show ?thesis by (simp add: facility_calls_def)
qed

lemma remove_handlers_loop_root2:
  "remove_handlers_loop 0 root2 = root2\<lparr>handlers := [h_file]\<rparr>"
  by (simp add: remove_handlers_loop.simps removeHandler_def root2_def h_stdout_def h_file_def)

lemma configure_absent_root2:
  "configure no_sockets Map.empty ''application'' root2 2 =
     (None, root2\<lparr>handlers := [h_file, h_simple 2]\<rparr>, 3)"
  unfolding configure_def Let_def remove_handlers_loop_root2
  by (simp add: addFilter_def addHandler_def update_handler_def setFormatter_def
      h_simple_def h_file_def root2_def)

text \<open>
  Claim C9. With the \<open>application\<close> section absent, \<^verbatim>\<open>configure\<close> on a logger that
  holds a stdout handler and a file handler leaves two handlers: the file handler, which
  the removal loop skips, and the new stdout handler with the simple formatter.
\<close>

theorem configure_absent_section_keeps_a_handler:
  "handlers (configured (configure no_sockets Map.empty ''application'' root2 2)) =
     [h_file, h_simple 2]
   \<and> length (handlers (configured (configure no_sockets Map.empty ''application'' root2 2))) = 2
   \<and> bindings (configured (configure no_sockets Map.empty ''application'' root2 2)) =
     [(LogFile ''/tmp/x.log'', Some log_format, [TachyonFilter None]),
      (Stdout, Some simple_format, [TachyonFilter None])]"
  by (simp add: configure_absent_root2 configured_def bindings_def sink_binding_def
      h_file_def h_simple_def)

lemma configure_twice_absent_root2:
  "configure_twice no_sockets Map.empty ''application'' root2 2 =
     (None, root2\<lparr>handlers := [h_simple 2, h_simple 3]\<rparr>, 4)"
proof -
  have loop: "remove_handlers_loop 0 (root2\<lparr>handlers := [h_file, h_simple 2]\<rparr>) =
      root2\<lparr>handlers := [h_simple 2]\<rparr>"
    by (simp add: remove_handlers_loop.simps removeHandler_def root2_def h_simple_def h_file_def)
  have "configure no_sockets Map.empty ''application'' (root2\<lparr>handlers := [h_file, h_simple 2]\<rparr>) 3 =
      (None, root2\<lparr>handlers := [h_simple 2, h_simple 3]\<rparr>, 4)"
    unfolding configure_def Let_def loop
    by (simp add: addFilter_def addHandler_def update_handler_def setFormatter_def
        h_simple_def root2_def)
  then show ?thesis
    by (simp add: configure_twice_def configure_absent_root2)
qed

text \<open>
  Claim C3. With the \<open>application\<close> section absent and two handlers attached before,
  configuring twice leaves two stdout handlers with the simple formatter, configuring once
  leaves the earlier file handler and one stdout handler: the resulting bindings differ,
  as lists and as sets.
\<close>

theorem configure_twice_differs_from_once:
  "bindings (configured (configure_twice no_sockets Map.empty ''application'' root2 2)) =
     [(Stdout, Some simple_format, [TachyonFilter None]),
      (Stdout, Some simple_format, [TachyonFilter None])]
   \<and> bindings (configured (configure no_sockets Map.empty ''application'' root2 2)) =
     [(LogFile ''/tmp/x.log'', Some log_format, [TachyonFilter None]),
      (Stdout, Some simple_format, [TachyonFilter None])]
   \<and> set (bindings (configured (configure_twice no_sockets Map.empty ''application'' root2 2))) \<noteq>
     set (bindings (configured (configure no_sockets Map.empty ''application'' root2 2)))"
  by (simp add: configure_twice_absent_root2 configure_absent_root2 configured_def bindings_def
      sink_binding_def h_file_def h_simple_def)

text \<open>
  The section-present path of \<^verbatim>\<open>configure\<close> resets the handler list, so its result is
  determined by the section: configuring twice gives the bindings of configuring once.
  In the absent-section path the removal loop empties a list of at most one handler.
\<close>

lemma set_level_fst_name:
  "fst (set_level lg v) = fst (set_level \<lparr>name = name lg, level = 0, handlers = [], ancestor_levels = []\<rparr> v)"
  by (auto simp: set_level_def Let_def split: int_result.splits level_value.splits option.splits)

lemma set_level_keeps:
  "name (snd (set_level lg v)) = name lg \<and> handlers (snd (set_level lg v)) = handlers lg"
  by (auto simp: set_level_def Let_def setLevel_def
      split: int_result.splits level_value.splits option.splits)

lemma set_level_int: "set_level lg (LevelInt n) = (None, lg\<lparr>level := n\<rparr>)"
  by (simp add: set_level_def int_of_level_def setLevel_def)

lemma configure_section_result:
  assumes "config cs = Some sec"
  shows "fst (configure is_socket config cs lg nid) = section_error (name lg) cs sec
     \<and> name (configured (configure is_socket config cs lg nid)) = name lg
     \<and> (fst (configure is_socket config cs lg nid) = None \<longrightarrow>
          bindings (configured (configure is_socket config cs lg nid)) = section_bindings is_socket cs sec)"
proof -
  define lg0 where "lg0 = lg\<lparr>handlers := []\<rparr>"
  define v where "v = (case sec ''log_level'' of Some l \<Rightarrow> LevelStr l
                        | None \<Rightarrow> if cs = ''application'' then LevelStr ''WARNING'' else LevelInt 0)"
  define r where "r = (case sec ''log_level'' of
                         Some l \<Rightarrow> set_level lg0 (LevelStr l)
                       | None \<Rightarrow> if cs = ''application'' then set_level lg0 (LevelStr ''WARNING'')
                                 else (None, lg0))"
  have r_fst: "fst r = fst (set_level \<lparr>name = name lg, level = 0, handlers = [], ancestor_levels = []\<rparr> v)"
    using set_level_fst_name [of lg0]
    by (auto simp: r_def v_def lg0_def set_level_int split: option.splits)
  have r_keeps: "name (snd r) = name lg \<and> handlers (snd r) = []"
    using set_level_keeps [of lg0]
    by (auto simp: r_def lg0_def split: option.splits)
  obtain x1 lg1 where r_eq: "r = (x1, lg1)" by (cases r)
  have lg1: "name lg1 = name lg" "handlers lg1 = []"
    using r_keeps r_eq by simp_all
  have x1: "x1 = fst (set_level \<lparr>name = name lg, level = 0, handlers = [], ancestor_levels = []\<rparr> v)"
    using r_fst r_eq by simp
  have unfold: "configure is_socket config cs lg nid =
    (let tachyonfilter = (if cs = ''application'' \<and> sec ''name'' \<noteq> None
                     then TachyonFilter (sec ''name'') else TachyonFilter None)
     in case x1 of
                   Some x \<Rightarrow> (Some x, lg1, nid)
                 | None \<Rightarrow>
                    (case getboolean sec ''log_stdout'' False of
                       Inl x \<Rightarrow> (Some x, lg1, nid)
                     | Inr log_stdout \<Rightarrow>
                        (let (logger, nid) =
                               (if log_stdout then
                                  (let handler = \<lparr>hid = nid, sink = Stdout, formatter = None,
                                                   filters = []\<rparr>;
                                       handler = setFormatter handler log_format;
                                       handler = addFilter handler tachyonfilter
                                   in (addHandler lg1 handler, nid + 1))
                                else (lg1, nid));
                             host = sec ''log_server'';
                             (logger, nid) =
                               (case host of
                                  None \<Rightarrow> (logger, nid)
                                | Some host \<Rightarrow>
                                    (let port = (case sec ''log_server_port'' of
                                                   None \<Rightarrow> PortInt 514 | Some p \<Rightarrow> PortStr p);
                                         address =
                                           (if host = ''127.0.0.1'' \<or> lower host = ''localhost'' then
                                              (if is_socket ''/dev/log'' then UnixSocket ''/dev/log''
                                               else if is_socket ''/var/run/syslog''
                                               then UnixSocket ''/var/run/syslog''
                                               else HostPort host port)
                                            else HostPort host port);
                                         handler = \<lparr>hid = nid, sink = SysLog address,
                                                     formatter = None, filters = []\<rparr>;
                                         handler = setFormatter handler log_format;
                                         handler = addFilter handler tachyonfilter
                                     in (addHandler logger handler, nid + 1)));
                             log_file = sec ''log_file'';
                             (logger, nid) =
                               (case log_file of
                                  None \<Rightarrow> (logger, nid)
                                | Some path \<Rightarrow>
                                    (let handler = \<lparr>hid = nid, sink = LogFile path,
                                                     formatter = None, filters = []\<rparr>;
                                         handler = setFormatter handler log_format;
                                         handler = addFilter handler tachyonfilter
                                     in (addHandler logger handler, nid + 1)))
                         in (None, logger, nid))))"
    by (simp only: configure_def Let_def assms option.simps simp_thms if_False
          r_eq [unfolded r_def lg0_def] prod.case)
  show ?thesis
    unfolding unfold section_error_def v_def [symmetric] x1 [symmetric]
    using lg1
    by (cases x1; cases "getboolean sec ''log_stdout'' False")
       (auto simp: Let_def configured_def bindings_def sink_binding_def section_bindings_def
          addHandler_def addFilter_def setFormatter_def
          split: option.splits)
qed

lemma configure_section_idempotent:
  assumes "config cs = Some sec"
  shows "fst (configure_twice is_socket config cs lg nid) = fst (configure is_socket config cs lg nid)
     \<and> (fst (configure is_socket config cs lg nid) = None \<longrightarrow>
          bindings (configured (configure_twice is_socket config cs lg nid)) =
          bindings (configured (configure is_socket config cs lg nid)))"
proof -
  obtain x lg' nid' where once: "configure is_socket config cs lg nid = (x, lg', nid')"
    by (cases "configure is_socket config cs lg nid")
  show ?thesis
  proof (cases x)
    case (Some e)
    then show ?thesis by (simp add: configure_twice_def once)
  next
    case None
    have nm: "name lg' = name lg"
      using configure_section_result [of config cs sec is_socket lg nid] once assms
      by (simp add: configured_def)
    have twice: "configure_twice is_socket config cs lg nid = configure is_socket config cs lg' nid'"
      by (simp add: configure_twice_def once None)
    have "fst (configure is_socket config cs lg' nid') = fst (configure is_socket config cs lg nid)"
      using configure_section_result [of config cs sec is_socket lg nid]
            configure_section_result [of config cs sec is_socket lg' nid'] nm assms
      by simp
    moreover have "bindings (configured (configure is_socket config cs lg' nid')) =
        bindings (configured (configure is_socket config cs lg nid))"
      using configure_section_result [of config cs sec is_socket lg nid]
            configure_section_result [of config cs sec is_socket lg' nid'] nm once None assms
      by simp
    ultimately show ?thesis by (simp add: twice)
  qed
qed

lemma remove_handlers_loop_stop:
  "length (handlers lg) \<le> i \<Longrightarrow> remove_handlers_loop i lg = lg"
  by (subst remove_handlers_loop.simps) simp

lemma remove_handlers_loop_step:
  "i < length (handlers lg) \<Longrightarrow>
   remove_handlers_loop i lg = remove_handlers_loop (i + 1) (removeHandler lg (handlers lg ! i))"
  by (subst remove_handlers_loop.simps) simp

lemma remove_handlers_loop_short:
  assumes "length (handlers lg) \<le> 1"
  shows "handlers (remove_handlers_loop 0 lg) = []"
proof (cases "handlers lg")
  case Nil
  then show ?thesis by (simp add: remove_handlers_loop_stop)
next
  case (Cons h hs)
  with assms have hs: "hs = []" by simp
  have "remove_handlers_loop 0 lg = remove_handlers_loop 1 (lg\<lparr>handlers := []\<rparr>)"
    using remove_handlers_loop_step [of 0 lg] by (simp add: Cons hs removeHandler_def)
  also have "\<dots> = lg\<lparr>handlers := []\<rparr>"
    by (rule remove_handlers_loop_stop) simp
  finally show ?thesis by simp
qed

lemma configure_absent_section_single:
  assumes "config ''application'' = None" and "length (handlers lg) \<le> 1"
  shows "bindings (configured (configure is_socket config ''application'' lg nid)) =
           [(Stdout, Some simple_format, [TachyonFilter None])]"
proof -
  obtain lg1 where lg1: "remove_handlers_loop 0 lg = lg1" by simp
  have "handlers lg1 = []"
    using remove_handlers_loop_short [OF assms(2)] lg1 by simp
  then show ?thesis
    unfolding configure_def Let_def lg1
    using assms(1)
    by (simp add: configured_def bindings_def sink_binding_def addFilter_def addHandler_def
        update_handler_def setFormatter_def)
qed

section \<open>Properties of the cache facade\<close>

text \<open>
  Claim C10. Every call \<^verbatim>\<open>Cache.store(reference, obj, expire)\<close> makes exactly one call to
  the backend; the expiry it passes is \<open>min expire 604800\<close>: a value above 604800 seconds
  (7 days) is clamped to 604800, a value at or below the bound is forwarded unchanged, and
  \<^verbatim>\<open>reference\<close> and \<^verbatim>\<open>obj\<close> are forwarded unmodified.
\<close>

theorem store_clamps_expire:
  "cached_backend (store self reference obj expire) =
     cached_backend self @
       [\<lparr>call_reference = reference, call_obj = obj, call_expire = min expire 604800\<rparr>]
   \<and> (expire > 604800 \<longrightarrow>
        call_expire (last (cached_backend (store self reference obj expire))) = 604800)
   \<and> (expire \<le> 604800 \<longrightarrow>
        call_expire (last (cached_backend (store self reference obj expire))) = expire)
   \<and> call_reference (last (cached_backend (store self reference obj expire))) = reference
   \<and> call_obj (last (cached_backend (store self reference obj expire))) = obj"
  by (simp add: store_def Let_def min_def)

theorem store_clamps_expire_witness:
  "(700000::int) > 604800 \<and> (60::int) \<le> 604800 \<and> call_expire (last (cached_backend
      (store \<lparr>cached_backend = []\<rparr> ''k'' (1::nat) 700000))) = 604800
   \<and> call_expire (last (cached_backend
      (store \<lparr>cached_backend = []\<rparr> ''k'' (1::nat) 60))) = 60"
  using store_clamps_expire [of "\<lparr>cached_backend = []\<rparr>" "''k''" "1::nat" 700000]
        store_clamps_expire [of "\<lparr>cached_backend = []\<rparr>" "''k''" "1::nat" 60]
  by simp

end
